theory Spec2Isabelle
  imports
    Complex_Main
    "HOL-Library.Finite_Map"
    "HOL-Library.AList"
    "HOL-Library.Char_ord"
    "HOL-Library.List_Lexorder"
begin

section \<open>Go values\<close>

text \<open>
  A value of Go's \<^verbatim>\<open>interface{}\<close> as \<^verbatim>\<open>encoding/json\<close> produces it: \<^verbatim>\<open>nil\<close>, a bool, a
  number, a string, a slice or a \<^verbatim>\<open>map[string]interface{}\<close>. A Go map is a finite map
  that may be \<^verbatim>\<open>nil\<close>: \<open>None\<close> is the nil map, \<open>Some m\<close> a map that exists (possibly
  empty). An interface that holds a nil map (\<open>GMap None\<close>) is not the nil interface
  \<open>GNil\<close>; the JSON decoder never produces it, assigning a nil map to an interface does.

  \<^verbatim>\<open>reflect.DeepEqual\<close> on such values compares maps key by key and distinguishes the nil
  map from the empty one, which is the equality of this type.
\<close>

datatype gval =
    GNil
  | GBool bool
  | GNum rat
  | GStr string
  | GArr "gval list"
  | GMap "(string, gval) fmap option"

type_synonym 'v gomap = "(string, 'v) fmap option"

text \<open>\<^verbatim>\<open>type Counts map[string]int\<close> and \<^verbatim>\<open>type SubmittedData map[string]interface{}\<close>.\<close>

type_synonym Counts = "int gomap"
type_synonym SubmittedData = "gval gomap"

datatype error =
    EsError string
  | RecordNotFound
  | Err string
  | Panic string

text \<open>\<^verbatim>\<open>len(m)\<close>, \<^verbatim>\<open>m[k]\<close> (zero value for a missing key) and \<^verbatim>\<open>v, ok := m[k]\<close>.\<close>

definition len_map :: "'v gomap \<Rightarrow> int" where
  "len_map m = (case m of None \<Rightarrow> 0 | Some f \<Rightarrow> int (fcard (fmdom f)))"

definition lookup_map :: "'v gomap \<Rightarrow> string \<Rightarrow> 'v option" where
  "lookup_map m k = (case m of None \<Rightarrow> None | Some f \<Rightarrow> fmlookup f k)"

definition count_of :: "(string, int) fmap \<Rightarrow> string \<Rightarrow> int" where
  "count_of f k = (case fmlookup f k of None \<Rightarrow> 0 | Some n \<Rightarrow> n)"

definition counts_get :: "Counts \<Rightarrow> string \<Rightarrow> int" where
  "counts_get c k = (case c of None \<Rightarrow> 0 | Some f \<Rightarrow> count_of f k)"

text \<open>\<^verbatim>\<open>m[k] == nil\<close> for a map of interfaces: the key is missing or holds the nil interface.\<close>

definition entry_is_nil :: "SubmittedData \<Rightarrow> string \<Rightarrow> bool" where
  "entry_is_nil m k = (case lookup_map m k of None \<Rightarrow> True | Some v \<Rightarrow> v = GNil)"

section \<open>Grouping submitted answers\<close>

record SubmittedDataTracker =
  Value :: SubmittedData
  Count :: int

text \<open>
  The loop of \<^verbatim>\<open>collateSubmittedData\<close>: every tracker whose value is deeply equal to the item
  has its count incremented in place, and \<^verbatim>\<open>foundIt\<close> records whether there was one.
\<close>

fun collate_scan :: "SubmittedData \<Rightarrow> SubmittedDataTracker list \<Rightarrow> SubmittedDataTracker list \<times> bool" where
  "collate_scan item [] = ([], False)"
| "collate_scan item (tracker # rest) =
     (let (rest', foundIt) = collate_scan item rest
      in if Value tracker = item
         then (tracker\<lparr>Count := Count tracker + 1\<rparr> # rest', True)
         else (tracker # rest', foundIt))"

definition collateSubmittedData ::
  "SubmittedDataTracker list \<Rightarrow> SubmittedData \<Rightarrow> SubmittedDataTracker list" where
  "collateSubmittedData sdt item =
     (let (sdt', foundIt) = collate_scan item sdt
      in if \<not> foundIt then sdt' @ [\<lparr>Value = item, Count = 1\<rparr>] else sdt')"

section \<open>The data model\<close>

text \<open>
  The structs of \<^verbatim>\<open>hive.go\<close>. A field keeps its Go name behind the initial of its
  struct (\<open>aId\<close> is \<^verbatim>\<open>Asset.Id\<close>, \<open>asState\<close> is \<^verbatim>\<open>Assignment.State\<close>).
\<close>

record Asset =
  aId :: string
  aProject :: string
  aUrl :: string
  aName :: string
  aMetadata :: "gval gomap"
  aSubmittedData :: SubmittedData
  aFavorited :: bool
  aVerified :: bool
  aCounts :: Counts

record User =
  uId :: string
  uName :: string
  uEmail :: string
  uProject :: string
  uExternalId :: string
  uCounts :: Counts
  uFavorites :: "Asset gomap"
  uNewFavorites :: "Asset gomap"
  uVerifiedAssets :: "string list"

record Assignment =
  asId :: string
  asUser :: string
  asProject :: string
  asTask :: string
  asAsset :: Asset
  asState :: string
  asSubmittedData :: SubmittedData

text \<open>
  \<^verbatim>\<open>AssignmentCriteria.SubmittedData\<close> maps a task name to a rule. The program ranges
  over this map and over each rule, so both are kept as lists of entries, ranged over in
  list order (Go fixes no order). A rule is an \<^verbatim>\<open>interface{}\<close> that the program asserts
  to be a map: \<open>NotAMap\<close> stands for every value on which that assertion panics.
\<close>

datatype criteria_rule = Rule "(string \<times> gval) list" | NotAMap

record AssignmentCriteria =
  acSubmittedData :: "(string \<times> criteria_rule) list"

record CompletionCriteria =
  Total :: int
  Matching :: int

record Task =
  tId :: string
  tProject :: string
  tName :: string
  tDescription :: string
  tCurrentState :: string
  tAssignmentCriteria :: AssignmentCriteria
  tCompletionCriteria :: CompletionCriteria

record favoriteResponse =
  AssetId :: string
  Action :: string

text \<open>\<^verbatim>\<open>Params\<close>: the program passes \<^verbatim>\<open>From\<close> and \<^verbatim>\<open>Size\<close> as decimal strings.\<close>

record Params =
  From :: nat
  Size :: nat
  SortBy :: string
  SortDir :: string

section \<open>The record store\<close>

text \<open>
  The program keeps all its state in an Elasticsearch index, reached through
  \<^verbatim>\<open>s.EsConn\<close>. The store is not part of the repository; it is modelled as four tables
  (document id and document, in index order) with the operations the program calls.
  A query is kept as the list of conditions the program composes instead of as JSON
  text, and a condition on a field holds when the field equals the given value.

  Any request to the store may fail: \<open>es_faults\<close> lists the requests that do.
  \<open>es_new_ids\<close> are the identifiers the store hands out, in turn, to documents indexed
  without one.
\<close>

datatype assignment_cond =
    TermTask string
  | TermUser string
  | TermProject string
  | TermState string
  | TermAssetId string

datatype asset_cond =
    Missing string
  | Match string string gval
  | MatchProject string
  | IdIn "string list"

datatype es_op =
    OpGetSource string string
  | OpExists string string
  | OpIndex string string
  | OpSearchTasks
  | OpSearchAssets
  | OpSearchAssignments "assignment_cond list"
  | OpCount string
  | OpRefresh

record Server =
  ActiveProjectId :: string
  es_tasks :: "(string \<times> Task) list"
  es_assets :: "(string \<times> Asset) list"
  es_assignments :: "(string \<times> Assignment) list"
  es_users :: "(string \<times> User) list"
  es_faults :: "es_op list"
  es_new_ids :: "string list"

definition es_fails :: "Server \<Rightarrow> es_op \<Rightarrow> bool" where
  "es_fails s op = List.member (es_faults s) op"

text \<open>The number of hits a search returns when the query names no \<^verbatim>\<open>size\<close>.\<close>

definition es_default_size :: nat where
  "es_default_size = 10"

fun assignment_cond_holds :: "assignment_cond \<Rightarrow> Assignment \<Rightarrow> bool" where
  "assignment_cond_holds (TermTask t) a = (asTask a = t)"
| "assignment_cond_holds (TermUser u) a = (asUser a = u)"
| "assignment_cond_holds (TermProject p) a = (asProject a = p)"
| "assignment_cond_holds (TermState st) a = (asState a = st)"
| "assignment_cond_holds (TermAssetId i) a = (aId (asAsset a) = i)"

text \<open>
  Modelled from the spec: the store's evaluation of a condition on an asset, which is the
  store's and not the repository's. \<open>Missing n\<close> is the filter
  \<^verbatim>\<open>{"missing": {"field": "SubmittedData.n"}}\<close>: the field is absent or null.
  \<open>Match t f v\<close> is the match of \<^verbatim>\<open>SubmittedData.t.f\<close> against \<open>v\<close>, and \<open>IdIn\<close> the
  \<^verbatim>\<open>terms\<close> query on \<^verbatim>\<open>Id\<close>.
\<close>

fun asset_cond_holds :: "asset_cond \<Rightarrow> Asset \<Rightarrow> bool" where
  "asset_cond_holds (Missing n) a = entry_is_nil (aSubmittedData a) n"
| "asset_cond_holds (Match t f v) a =
     (case lookup_map (aSubmittedData a) t of
        Some (GMap (Some m)) \<Rightarrow> fmlookup m f = Some v
      | _ \<Rightarrow> False)"
| "asset_cond_holds (MatchProject p) a = (aProject a = p)"
| "asset_cond_holds (IdIn ids) a = List.member ids (aId a)"

text \<open>
  What \<^verbatim>\<open>encoding/json\<close> writes and reads back: a nil map held in an interface is written
  as \<^verbatim>\<open>null\<close> and comes back as the nil interface.
\<close>

primrec json_val :: "gval \<Rightarrow> gval" where
  "json_val GNil = GNil"
| "json_val (GBool b) = GBool b"
| "json_val (GNum n) = GNum n"
| "json_val (GStr str) = GStr str"
| "json_val (GArr xs) = GArr (map json_val xs)"
| "json_val (GMap m) =
     (case map_option (fmmap json_val) m of None \<Rightarrow> GNil | Some f \<Rightarrow> GMap (Some f))"

definition json_asset :: "Asset \<Rightarrow> Asset" where
  "json_asset a =
     a\<lparr>aMetadata := map_option (fmmap json_val) (aMetadata a),
       aSubmittedData := map_option (fmmap json_val) (aSubmittedData a)\<rparr>"

text \<open>\<^verbatim>\<open>EsConn.GetSource\<close>, \<^verbatim>\<open>EsConn.ExistsBool\<close> and \<^verbatim>\<open>EsConn.Index\<close> on one table.\<close>

definition GetSource :: "Server \<Rightarrow> string \<Rightarrow> (string \<times> 'a) list \<Rightarrow> string \<Rightarrow> error + 'a" where
  "GetSource s kind tbl ident =
     (if es_fails s (OpGetSource kind ident) then Inl (EsError ''get'')
      else case map_of tbl ident of None \<Rightarrow> Inl RecordNotFound | Some d \<Rightarrow> Inr d)"

definition ExistsBool :: "Server \<Rightarrow> string \<Rightarrow> (string \<times> 'a) list \<Rightarrow> string \<Rightarrow> bool" where
  "ExistsBool s kind tbl ident =
     (if es_fails s (OpExists kind ident) then False
      else case map_of tbl ident of None \<Rightarrow> False | Some d \<Rightarrow> True)"

definition Index_doc ::
  "Server \<Rightarrow> string \<Rightarrow> (string \<times> 'a) list \<Rightarrow> string \<Rightarrow> 'a
     \<Rightarrow> error + (string \<times> (string \<times> 'a) list \<times> string list)" where
  "Index_doc s kind tbl ident d =
     (if es_fails s (OpIndex kind ident) then Inl (EsError ''index'')
      else if ident = [] then
        (case es_new_ids s of
           [] \<Rightarrow> Inl (EsError ''index'')
         | n # ns \<Rightarrow> Inr (n, AList.update n d tbl, ns))
      else Inr (ident, AList.update ident d tbl, es_new_ids s))"

definition index_asset :: "Server \<Rightarrow> string \<Rightarrow> Asset \<Rightarrow> (error + string) \<times> Server" where
  "index_asset s ident a =
     (case Index_doc s ''assets'' (es_assets s) ident (json_asset a) of
        Inl e \<Rightarrow> (Inl e, s)
      | Inr (n, tbl, ids) \<Rightarrow> (Inr n, s\<lparr>es_assets := tbl, es_new_ids := ids\<rparr>))"

definition index_assignment :: "Server \<Rightarrow> string \<Rightarrow> Assignment \<Rightarrow> (error + string) \<times> Server" where
  "index_assignment s ident a =
     (case Index_doc s ''assignments'' (es_assignments s) ident a of
        Inl e \<Rightarrow> (Inl e, s)
      | Inr (n, tbl, ids) \<Rightarrow> (Inr n, s\<lparr>es_assignments := tbl, es_new_ids := ids\<rparr>))"

definition index_user :: "Server \<Rightarrow> string \<Rightarrow> User \<Rightarrow> (error + string) \<times> Server" where
  "index_user s ident u =
     (case Index_doc s ''users'' (es_users s) ident u of
        Inl e \<Rightarrow> (Inl e, s)
      | Inr (n, tbl, ids) \<Rightarrow> (Inr n, s\<lparr>es_users := tbl, es_new_ids := ids\<rparr>))"

text \<open>
  \<^verbatim>\<open>EsConn.Search\<close> on the assignments: the total number of matches and the first
  \<open>size_opt\<close> of them (the default number when the query names no size).
\<close>

definition matching_assignments ::
  "assignment_cond list \<Rightarrow> (string \<times> Assignment) list \<Rightarrow> (string \<times> Assignment) list" where
  "matching_assignments conds tbl =
     filter (\<lambda>hit. list_all (\<lambda>c. assignment_cond_holds c (snd hit)) conds) tbl"

definition search_assignments ::
  "Server \<Rightarrow> assignment_cond list \<Rightarrow> int option
     \<Rightarrow> error + (int \<times> (string \<times> Assignment) list)" where
  "search_assignments s conds size_opt =
     (if es_fails s (OpSearchAssignments conds) then Inl (EsError ''search'')
      else
        (let hits = matching_assignments conds (es_assignments s)
         in Inr (int (length hits),
                 take (case size_opt of None \<Rightarrow> es_default_size | Some n \<Rightarrow> nat n) hits)))"


text \<open>\<^verbatim>\<open>EsConn.Search\<close> and \<^verbatim>\<open>EsConn.Count\<close> on the assets.\<close>

definition search_assets ::
  "Server \<Rightarrow> asset_cond list \<Rightarrow> asset_cond list \<Rightarrow> int
     \<Rightarrow> error + (int \<times> (string \<times> Asset) list)" where
  "search_assets s musts mustNots limit =
     (if es_fails s OpSearchAssets then Inl (EsError ''search'')
      else
        (let hits = filter (\<lambda>hit. list_all (\<lambda>c. asset_cond_holds c (snd hit)) musts
                              \<and> \<not> list_ex (\<lambda>c. asset_cond_holds c (snd hit)) mustNots)
                      (es_assets s)
         in Inr (int (length hits), take (nat limit) hits)))"

definition count_assets :: "Server \<Rightarrow> error + int" where
  "count_assets s =
     (if es_fails s (OpCount ''assets'') then Inl (EsError ''count'')
      else Inr (int (length (es_assets s))))"


section \<open>Looking records up\<close>

definition FindTask :: "Server \<Rightarrow> string \<Rightarrow> error + Task" where
  "FindTask s ident = GetSource s ''tasks'' (es_tasks s) ident"

definition FindAsset :: "Server \<Rightarrow> string \<Rightarrow> error + Asset" where
  "FindAsset s ident = GetSource s ''assets'' (es_assets s) ident"

definition task_field :: "string \<Rightarrow> Task \<Rightarrow> string" where
  "task_field f t =
     (if f = ''Name'' then tName t
      else if f = ''Id'' then tId t
      else if f = ''Project'' then tProject t
      else if f = ''Description'' then tDescription t
      else if f = ''CurrentState'' then tCurrentState t
      else [])"

text \<open>
  \<^verbatim>\<open>FindTasks\<close>: the tasks of the active project, sorted, from \<^verbatim>\<open>p.From\<close>, at most
  \<^verbatim>\<open>p.Size\<close> of them. On a failed search it returns no task and the error.
\<close>

definition FindTasks :: "Server \<Rightarrow> Params \<Rightarrow> Task list \<times> error option" where
  "FindTasks s p =
     (if es_fails s OpSearchTasks then ([], Some (EsError ''search''))
      else
        (let hits = filter (\<lambda>t. tProject t = ActiveProjectId s) (map snd (es_tasks s));
             ordered = (if SortDir p = ''desc'' then rev (sort_key (task_field (SortBy p)) hits)
                        else sort_key (task_field (SortBy p)) hits)
         in (take (Size p) (drop (From p) ordered), None)))"

text \<open>All the tasks of the active project in the store, in index order.\<close>

definition project_tasks :: "Server \<Rightarrow> Task list" where
  "project_tasks s = filter (\<lambda>t. tProject t = ActiveProjectId s) (map snd (es_tasks s))"

text \<open>The \<^verbatim>\<open>Params\<close> literal every caller of \<^verbatim>\<open>FindTasks\<close> below builds.\<close>

definition task_page :: Params where
  "task_page = \<lparr>From = 0, Size = 10, SortBy = ''Name'', SortDir = ''asc''\<rparr>"

definition is_panic :: "error \<Rightarrow> bool" where
  "is_panic e = (case e of Panic m \<Rightarrow> True | _ \<Rightarrow> False)"

section \<open>Users\<close>

definition zero_user :: User where
  "zero_user = \<lparr>uId = [], uName = [], uEmail = [], uProject = [], uExternalId = [],
     uCounts = None, uFavorites = None, uNewFavorites = None, uVerifiedAssets = []\<rparr>"

definition new_user_counts :: "(string, int) fmap" where
  "new_user_counts = fmap_of_list [(''Favorites'', 0), (''Assignments'', 0), (''VerifiedAssets'', 0)]"

text \<open>
  The end of \<^verbatim>\<open>CreateUser\<close> and of \<^verbatim>\<open>CreateUserFromMissingCookieValue\<close>: the user is
  indexed; one without an id takes the id the store generated and is indexed again.
\<close>

definition store_new_user :: "Server \<Rightarrow> User \<Rightarrow> (error + User) \<times> Server" where
  "store_new_user s user =
     (case index_user s (uId user) user of
        (Inl e, s1) \<Rightarrow> (Inl e, s1)
      | (Inr rid, s1) \<Rightarrow>
          if length (uId user) = 0 then
            (let user' = user\<lparr>uId := rid\<rparr>
             in case index_user s1 (uId user') user' of
                  (Inl e, s2) \<Rightarrow> (Inl e, s2)
                | (Inr rid', s2) \<Rightarrow> (Inr user', s2))
          else (Inr user, s1))"

text \<open>
  Both constructors zero the task counters only \<^verbatim>\<open>if err != nil\<close>, that is over the
  empty list \<^verbatim>\<open>FindTasks\<close> returns with an error.
\<close>

definition initial_user_counts :: "Server \<Rightarrow> (string, int) fmap" where
  "initial_user_counts s =
     (case FindTasks s task_page of
        (tasks, Some e) \<Rightarrow> fold (\<lambda>task f. fmupd (tId task) 0 f) tasks new_user_counts
      | (tasks, None) \<Rightarrow> new_user_counts)"

definition CreateUser :: "Server \<Rightarrow> User \<Rightarrow> (error + User) \<times> Server" where
  "CreateUser s body =
     store_new_user s
       (body\<lparr>uProject := ActiveProjectId s, uFavorites := Some fmempty,
             uCounts := Some (initial_user_counts s)\<rparr>)"

definition CreateUserFromMissingCookieValue :: "Server \<Rightarrow> string \<Rightarrow> (error + User) \<times> Server" where
  "CreateUserFromMissingCookieValue s userId =
     store_new_user s
       (zero_user\<lparr>uId := userId, uProject := ActiveProjectId s, uFavorites := Some fmempty,
                  uCounts := Some (initial_user_counts s)\<rparr>)"

text \<open>
  The loop of \<^verbatim>\<open>FindUser\<close> that sets a missing task counter to zero. Writing to a nil
  map panics.
\<close>

fun fill_task_counts :: "Task list \<Rightarrow> Counts \<Rightarrow> error + Counts" where
  "fill_task_counts [] c = Inr c"
| "fill_task_counts (task # rest) c =
     (case lookup_map c (tId task) of
        Some n \<Rightarrow> fill_task_counts rest c
      | None \<Rightarrow>
          (case c of
             None \<Rightarrow> Inl (Panic ''assignment to entry in nil map'')
           | Some f \<Rightarrow> fill_task_counts rest (Some (fmupd (tId task) 0 f))))"

text \<open>
  \<^verbatim>\<open>FindUser\<close> returns the user, \<^verbatim>\<open>nil\<close> (\<open>Inr None\<close>) when there is no such record, or
  an error. With an empty id it creates a user.
\<close>

definition FindUser :: "Server \<Rightarrow> string \<Rightarrow> (error + User option) \<times> Server" where
  "FindUser s ident =
     (if ident = [] then
        (case CreateUser s (zero_user\<lparr>uProject := ActiveProjectId s\<rparr>) of
           (Inl e, s1) \<Rightarrow> (Inl e, s1)
         | (Inr user, s1) \<Rightarrow> (Inr (Some user), s1))
      else
        (case GetSource s ''users'' (es_users s) ident of
           Inl e \<Rightarrow>
             if \<not> ExistsBool s ''users'' (es_users s) ident then (Inr None, s) else (Inl e, s)
         | Inr user \<Rightarrow>
             (case FindTasks s task_page of
                (tasks, Some e) \<Rightarrow> (Inr (Some user), s)
              | (tasks, None) \<Rightarrow>
                  (case fill_task_counts tasks (uCounts user) of
                     Inl e \<Rightarrow> (Inl e, s)
                   | Inr c \<Rightarrow> (Inr (Some (user\<lparr>uCounts := c\<rparr>)), s)))))"

text \<open>
  The opening of \<^verbatim>\<open>CreateAssignment\<close> and \<^verbatim>\<open>CreateAssetAssignment\<close>:
  \<^verbatim>\<open>user, _ := s.FindUser(userId)\<close>, and a user created when that gave \<^verbatim>\<open>nil\<close>.
\<close>

definition find_or_create_user :: "Server \<Rightarrow> string \<Rightarrow> (error + User) \<times> Server" where
  "find_or_create_user s userId =
     (case FindUser s userId of
        (Inr (Some user), s1) \<Rightarrow> (Inr user, s1)
      | (Inr None, s1) \<Rightarrow>
          (case CreateUserFromMissingCookieValue s1 userId of
             (Inl e, s2) \<Rightarrow>
               (Inl (Err ''Assignments can't be created without a user: failed creating a new anon user''), s2)
           | (Inr user, s2) \<Rightarrow> (Inr user, s2))
      | (Inl e, s1) \<Rightarrow>
          if is_panic e then (Inl e, s1)
          else
            (case CreateUserFromMissingCookieValue s1 userId of
               (Inl e', s2) \<Rightarrow>
                 (Inl (Err ''Assignments can't be created without a user: failed creating a new anon user''), s2)
             | (Inr user, s2) \<Rightarrow> (Inr user, s2)))"

section \<open>Choosing an asset to assign\<close>

text \<open>\<^verbatim>\<open>strings.Split\<close> and \<^verbatim>\<open>strings.Join\<close> (the separator is never empty here).\<close>

fun split_go :: "string \<Rightarrow> nat \<Rightarrow> string \<Rightarrow> string \<Rightarrow> string list" where
  "split_go sep k acc [] = [rev acc]"
| "split_go sep (Suc k) acc (c # cs) = split_go sep k acc cs"
| "split_go sep 0 acc (c # cs) =
     (if take (length sep) (c # cs) = sep
      then rev acc # split_go sep (length sep - 1) [] cs
      else split_go sep 0 (c # acc) cs)"

definition Split :: "string \<Rightarrow> string \<Rightarrow> string list" where
  "Split str sep = split_go sep 0 [] str"

fun Join :: "string list \<Rightarrow> string \<Rightarrow> string" where
  "Join [] sep = []"
| "Join [x] sep = x"
| "Join (x # y # ys) sep = x @ sep @ Join (y # ys) sep"

text \<open>The asset id is the third part of the id of each assignment found.\<close>

fun hit_asset_ids :: "(string \<times> Assignment) list \<Rightarrow> error + string list" where
  "hit_asset_ids [] = Inr []"
| "hit_asset_ids (hit # hits) =
     (let idParts = Split (fst hit) ''HIVE''
      in if length idParts \<le> 2 then Inl (Panic ''index out of range'')
         else (case hit_asset_ids hits of
                 Inl e \<Rightarrow> Inl e
               | Inr ids \<Rightarrow> Inr (idParts ! 2 # ids)))"

text \<open>
  The loop over \<^verbatim>\<open>task.AssignmentCriteria.SubmittedData\<close>. For an empty rule the
  program formats the \<^verbatim>\<open>missing\<close> filter with \<^verbatim>\<open>task.Name\<close>, the name of the task being
  assigned; for any other rule it formats the matches with \<^verbatim>\<open>taskName\<close>, the key.
\<close>

fun criteria_musts :: "Task \<Rightarrow> (string \<times> criteria_rule) list \<Rightarrow> error + asset_cond list" where
  "criteria_musts task [] = Inr []"
| "criteria_musts task ((taskName, ruleI) # rest) =
     (case ruleI of
        NotAMap \<Rightarrow> Inl (Panic ''interface conversion'')
      | Rule rule \<Rightarrow>
          (case criteria_musts task rest of
             Inl e \<Rightarrow> Inl e
           | Inr musts \<Rightarrow>
               Inr ((if length rule = 0 then [Missing (tName task)]
                     else map (\<lambda>(fieldName, fieldValue). Match taskName fieldName fieldValue) rule)
                    @ musts)))"

text \<open>
  \<^verbatim>\<open>FindAssignmentAsset\<close>. The first search asks for at most
  \<^verbatim>\<open>user.Counts["Assignments"]\<close> hits. \<open>r\<close> is the number \<^verbatim>\<open>rand.Intn\<close> draws, taken
  modulo the number of hits.
\<close>

definition FindAssignmentAsset :: "Server \<Rightarrow> Task \<Rightarrow> User \<Rightarrow> nat \<Rightarrow> error + Asset" where
  "FindAssignmentAsset s task user r =
     (case search_assignments s
             [TermTask (tId task), TermUser (uId user), TermProject (ActiveProjectId s)]
             (Some (counts_get (uCounts user) ''Assignments'')) of
        Inl e \<Rightarrow> Inl e
      | Inr (assetTotal, assetHits) \<Rightarrow>
          (case hit_asset_ids assetHits of
             Inl e \<Rightarrow> Inl e
           | Inr assetIds \<Rightarrow>
               (case criteria_musts task (acSubmittedData (tAssignmentCriteria task)) of
                  Inl e \<Rightarrow> Inl e
                | Inr musts0 \<Rightarrow>
                    (let musts = musts0 @ [MatchProject (ActiveProjectId s)];
                         mustNots = (if length assetIds > 0 then [IdIn assetIds] else [])
                     in case count_assets s of
                          Inl e \<Rightarrow> Inl e
                        | Inr n \<Rightarrow>
                            (case search_assets s musts mustNots n of
                               Inl e \<Rightarrow> Inl e
                             | Inr (hitsTotal, hits) \<Rightarrow>
                                 if hitsTotal \<le> 0 then Inl (Err ''No assets found'')
                                 else if length hits = 0 then Inl (Panic ''invalid argument to Intn'')
                                 else Inr (snd (hits ! (r mod length hits))))))))"

section \<open>The assignment lifecycle\<close>

definition zero_counts :: "(string, int) fmap" where
  "zero_counts = fmap_of_list
     [(''Favorites'', 0), (''Assignments'', 0), (''finished'', 0), (''skipped'', 0), (''unfinished'', 0)]"


text \<open>\<^verbatim>\<open>if len(asset.Counts) <= 0 { asset.Counts = Counts{...} }\<close>\<close>

definition ensure_counts :: "(string, int) fmap \<Rightarrow> Counts \<Rightarrow> (string, int) fmap" where
  "ensure_counts fresh c =
     (if len_map c \<le> 0 then fresh else (case c of None \<Rightarrow> fresh | Some f \<Rightarrow> f))"

text \<open>\<^verbatim>\<open>counts[k] += d\<close>\<close>

definition add_count :: "(string, int) fmap \<Rightarrow> string \<Rightarrow> int \<Rightarrow> (string, int) fmap" where
  "add_count f k d = fmupd k (count_of f k + d) f"

text \<open>
  \<^verbatim>\<open>CreateAssetAssignment\<close>: an assignment of the given asset. It looks the user and the
  asset up, and never the task. A failure to save the asset is only logged.
\<close>

definition CreateAssetAssignment ::
  "Server \<Rightarrow> string \<Rightarrow> string \<Rightarrow> string \<Rightarrow> (error + Assignment) \<times> Server" where
  "CreateAssetAssignment s taskId userId assetId =
     (case find_or_create_user s userId of
        (Inl e, s1) \<Rightarrow> (Inl e, s1)
      | (Inr user, s1) \<Rightarrow>
          (case FindAsset s1 assetId of
             Inl e \<Rightarrow> (Inl (Err ''Failed finding an asset with that id.''), s1)
           | Inr asset0 \<Rightarrow>
               (let counts = add_count
                      (add_count (ensure_counts zero_counts (aCounts asset0)) ''Assignments'' 1)
                      ''unfinished'' 1;
                    asset = asset0\<lparr>aCounts := Some counts\<rparr>;
                    s2 = snd (index_asset s1 (aId asset) asset);
                    assignment =
                      \<lparr>asId = Join [ActiveProjectId s2, taskId, assetId, userId] ''HIVE'',
                       asUser = userId, asProject = ActiveProjectId s2, asTask = taskId,
                       asAsset = asset, asState = ''unfinished'', asSubmittedData = None\<rparr>
                in case index_assignment s2 (asId assignment) assignment of
                     (Inl e, s3) \<Rightarrow> (Inl e, s3)
                   | (Inr rid, s3) \<Rightarrow> (Inr assignment, s3))))"

text \<open>
  \<^verbatim>\<open>CreateAssignment\<close>: the unfinished assignment of this user for this task when there
  is one, and otherwise a new assignment of an asset \<^verbatim>\<open>FindAssignmentAsset\<close> chooses.
\<close>

definition CreateAssignment ::
  "Server \<Rightarrow> string \<Rightarrow> string \<Rightarrow> nat \<Rightarrow> (error + Assignment) \<times> Server" where
  "CreateAssignment s taskId userId r =
     (case find_or_create_user s userId of
        (Inl e, s1) \<Rightarrow> (Inl e, s1)
      | (Inr user, s1) \<Rightarrow>
          (case FindTask s1 taskId of
             Inl e \<Rightarrow> (Inl e, s1)
           | Inr task \<Rightarrow>
               if tCurrentState task \<noteq> ''available'' then (Inl (Err ''Invalid task''), s1)
               else
                 (case search_assignments s1
                         [TermProject (ActiveProjectId s1), TermTask taskId, TermUser userId,
                          TermState ''unfinished'']
                         None of
                    Inl e \<Rightarrow> (Inl e, s1)
                  | Inr (hitsTotal, hits) \<Rightarrow>
                      if hitsTotal > 0 then
                        (case hits of
                           [] \<Rightarrow> (Inl (Panic ''index out of range''), s1)
                         | hit # others \<Rightarrow> (Inr (snd hit), s1))
                      else
                        (case FindAssignmentAsset s1 task user r of
                           Inl e \<Rightarrow> (Inl e, s1)
                         | Inr asset0 \<Rightarrow>
                             (let counts = add_count
                                    (add_count (ensure_counts zero_counts (aCounts asset0))
                                       ''Assignments'' 1)
                                    ''unfinished'' 1;
                                  assignmentAsset = asset0\<lparr>aCounts := Some counts\<rparr>
                              in case index_asset s1 (aId assignmentAsset) assignmentAsset of
                                   (Inl e, s2) \<Rightarrow> (Inl e, s2)
                                 | (Inr rid, s2) \<Rightarrow>
                                     (let assignment =
                                        \<lparr>asId = Join [ActiveProjectId s2, taskId,
                                                        aId assignmentAsset, uId user] ''HIVE'',
                                         asUser = userId, asProject = ActiveProjectId s2,
                                         asTask = taskId, asAsset = assignmentAsset,
                                         asState = ''unfinished'', asSubmittedData = None\<rparr>
                                      in case index_assignment s2 (asId assignment) assignment of
                                           (Inl e, s3) \<Rightarrow> (Inl e, s3)
                                         | (Inr rid', s3) \<Rightarrow> (Inr assignment, s3)))))))"








section \<open>Favorites\<close>

text \<open>
  \<^verbatim>\<open>FavoriteHandler\<close>, on the project and asset of the URL and the user id of the cookie;
  an error stands for the response with status 500. The copy of the asset put into the
  favorites shares its \<^verbatim>\<open>Counts\<close> map with the asset, so it shows the counter
  incremented after the copy was made.
\<close>

definition FavoriteHandler ::
  "Server \<Rightarrow> string \<Rightarrow> string \<Rightarrow> string \<Rightarrow> (error + favoriteResponse) \<times> Server" where
  "FavoriteHandler s0 project_id asset_id userId =
     (let s = s0\<lparr>ActiveProjectId := project_id\<rparr>
      in case FindAsset s asset_id of
           Inl e \<Rightarrow> (Inl e, s)
         | Inr asset0 \<Rightarrow>
             (case FindUser s userId of
                (Inl e, s1) \<Rightarrow>
                  if is_panic e then (Inl e, s1)
                  else (Inl (Err ''Favoriting assets requires a valid user.''), s1)
              | (Inr None, s1) \<Rightarrow> (Inl (Err ''Favoriting assets requires a valid user.''), s1)
              | (Inr (Some user), s1) \<Rightarrow>
                  (let counts = ensure_counts zero_counts (aCounts asset0);
                       favorites = (if len_map (uFavorites user) \<le> 0 then fmempty
                                    else (case uFavorites user of None \<Rightarrow> fmempty | Some f \<Rightarrow> f));
                       ok = (fmlookup favorites (aId asset0) \<noteq> None);
                       counts' = (if ok then
                                    (if count_of counts ''Favorites'' > 0
                                     then add_count counts ''Favorites'' (- 1) else counts)
                                  else add_count counts ''Favorites'' 1);
                       asset = asset0\<lparr>aCounts := Some counts'\<rparr>;
                       favorites' = (if ok then fmdrop (aId asset0) favorites
                                     else fmupd (aId asset0) asset favorites);
                       faveResponse = \<lparr>AssetId = aId asset0,
                                       Action = (if ok then ''unfavorited'' else ''favorited'')\<rparr>
                   in case uCounts user of
                        None \<Rightarrow> (Inl (Panic ''assignment to entry in nil map''), s1)
                      | Some f \<Rightarrow>
                          (let user' = user\<lparr>uFavorites := Some favorites',
                                 uCounts := Some (fmupd ''Favorites'' (len_map (Some favorites')) f)\<rparr>
                           in case index_asset s1 (aId asset) asset of
                                (Inl e, s2) \<Rightarrow> (Inl e, s2)
                              | (Inr rid, s2) \<Rightarrow>
                                  (case index_user s2 (uId user') user' of
                                     (Inl e, s3) \<Rightarrow> (Inl e, s3)
                                   | (Inr rid', s3) \<Rightarrow> (Inr faveResponse, s3))))))"

text \<open>The ids of the assets in the favorites of a user.\<close>

definition favorite_ids :: "User \<Rightarrow> string fset" where
  "favorite_ids u = (case uFavorites u of None \<Rightarrow> {||} | Some f \<Rightarrow> fmdom f)"

section \<open>Consensus\<close>






section \<open>The sweep, one work item at a time\<close>


















section \<open>Concrete stores\<close>

text \<open>Records of a project \<^verbatim>\<open>p\<close>, for the inputs the theorems below are run on.\<close>

definition mk_asset :: "string \<Rightarrow> SubmittedData \<Rightarrow> Counts \<Rightarrow> Asset" where
  "mk_asset i sd c = \<lparr>aId = i, aProject = ''p'', aUrl = ''http://example.org/'' @ i, aName = [],
     aMetadata = Some fmempty, aSubmittedData = sd, aFavorited = False, aVerified = False,
     aCounts = c\<rparr>"

definition mk_task ::
  "string \<Rightarrow> string \<Rightarrow> (string \<times> criteria_rule) list \<Rightarrow> int \<Rightarrow> int \<Rightarrow> Task" where
  "mk_task name state criteria total_min matching_min =
     \<lparr>tId = ''p-'' @ name, tProject = ''p'', tName = name, tDescription = [],
      tCurrentState = state, tAssignmentCriteria = \<lparr>acSubmittedData = criteria\<rparr>,
      tCompletionCriteria = \<lparr>Total = total_min, Matching = matching_min\<rparr>\<rparr>"

definition mk_user :: "string \<Rightarrow> Counts \<Rightarrow> User" where
  "mk_user i c = zero_user\<lparr>uId := i, uProject := ''p'', uFavorites := Some fmempty, uCounts := c\<rparr>"

definition mk_assignment ::
  "string \<Rightarrow> string \<Rightarrow> Asset \<Rightarrow> string \<Rightarrow> SubmittedData \<Rightarrow> Assignment" where
  "mk_assignment taskId userId asset state sd =
     \<lparr>asId = Join [''p'', taskId, aId asset, userId] ''HIVE'', asUser = userId, asProject = ''p'',
      asTask = taskId, asAsset = asset, asState = state, asSubmittedData = sd\<rparr>"

definition mk_server ::
  "Task list \<Rightarrow> Asset list \<Rightarrow> Assignment list \<Rightarrow> User list \<Rightarrow> es_op list \<Rightarrow> Server" where
  "mk_server tasks assets assignments users faults =
     \<lparr>ActiveProjectId = ''p'', es_tasks = map (\<lambda>t. (tId t, t)) tasks,
      es_assets = map (\<lambda>a. (aId a, a)) assets,
      es_assignments = map (\<lambda>a. (asId a, a)) assignments,
      es_users = map (\<lambda>u. (uId u, u)) users, es_faults = faults, es_new_ids = []\<rparr>"

definition new_user :: "string \<Rightarrow> User" where
  "new_user i = mk_user i (Some new_user_counts)"

text \<open>
  A task \<^verbatim>\<open>vote\<close> whose only rule is the empty rule for \<^verbatim>\<open>categorize\<close>; an asset that has
  been categorized and not voted on, and one that has been voted on and not categorized.
\<close>

definition c2_task :: Task where
  "c2_task = mk_task ''vote'' ''available'' [(''categorize'', Rule [])] 2 2"

definition c2_categorized :: Asset where
  "c2_categorized = mk_asset ''a1''
     (Some (fmap_of_list
        [(''categorize'', GMap (Some (fmap_of_list [(''category'', GStr ''usable'')]))),
         (''vote'', GNil)]))
     (Some zero_counts)"

definition c2_uncategorized :: Asset where
  "c2_uncategorized = mk_asset ''a2''
     (Some (fmap_of_list
        [(''categorize'', GNil),
         (''vote'', GMap (Some (fmap_of_list [(''score'', GStr ''3'')])))]))
     (Some zero_counts)"

definition c2_server :: Server where
  "c2_server = mk_server [c2_task] [c2_categorized, c2_uncategorized] [] [new_user ''u1''] []"

text \<open>
  A user who has finished nothing (\<^verbatim>\<open>Counts["Assignments"]\<close> is 0) and has skipped the
  only asset of the project.
\<close>

definition c3_task :: Task where
  "c3_task = mk_task ''t'' ''available'' [] 2 2"

definition c3_asset :: Asset where
  "c3_asset = mk_asset ''a1'' (Some (fmap_of_list [(''t'', GNil)]))
     (Some (fmap_of_list [(''Favorites'', 0), (''Assignments'', 1), (''finished'', 0),
                          (''skipped'', 1), (''unfinished'', 0)]))"

definition c3_skipped :: Assignment where
  "c3_skipped = mk_assignment ''p-t'' ''u1'' c3_asset ''skipped'' None"

definition c3_server :: Server where
  "c3_server = mk_server [c3_task] [c3_asset] [c3_skipped] [new_user ''u1''] []"



text \<open>A task that is not available, and an asset nobody has been assigned.\<close>

definition c7_task :: Task where
  "c7_task = mk_task ''t'' ''waiting'' [] 2 2"

definition c7_asset :: Asset where
  "c7_asset = mk_asset ''a1'' (Some (fmap_of_list [(''t'', GNil)])) (Some zero_counts)"

definition c7_server :: Server where
  "c7_server = mk_server [c7_task] [c7_asset] [] [new_user ''u1''] []"











section \<open>Properties of the grouping\<close>

lemma collate_scan_values: "map Value (fst (collate_scan item sdt)) = map Value sdt"
  by (induction sdt) (auto split: prod.splits)

lemma collate_scan_found: "snd (collate_scan item sdt) = (item \<in> set (map Value sdt))"
  by (induction sdt) (auto split: prod.splits)

lemma collate_scan_sum:
  "distinct (map Value sdt) \<Longrightarrow>
   sum_list (map Count (fst (collate_scan item sdt))) =
     sum_list (map Count sdt) + (if item \<in> set (map Value sdt) then 1 else 0)"
  by (induction sdt) (auto split: prod.splits)

lemma distinct_filter_eq_length:
  "distinct (map f xs) \<Longrightarrow> length (filter (\<lambda>x. f x = v) xs) = (if v \<in> set (map f xs) then 1 else 0)"
  by (induction xs) auto

text \<open>
  C10. When the values of the trackers are pairwise distinct (not deeply equal), they
  still are after \<^verbatim>\<open>collateSubmittedData\<close> has taken in one more item, the counts add up
  to one more than before, and exactly one tracker carries the item's value.
\<close>

theorem collateSubmittedData_keeps_distinct:
  assumes "distinct (map Value sdt)"
  shows "distinct (map Value (collateSubmittedData sdt item))
       \<and> sum_list (map Count (collateSubmittedData sdt item)) = sum_list (map Count sdt) + 1
       \<and> length (filter (\<lambda>t. Value t = item) (collateSubmittedData sdt item)) = 1"
proof -
  obtain sdt' foundIt where scan: "collate_scan item sdt = (sdt', foundIt)"
    by (cases "collate_scan item sdt")
  have vals: "map Value sdt' = map Value sdt"
    using collate_scan_values [of item sdt] scan by simp
  have found: "foundIt = (item \<in> set (map Value sdt))"
    using collate_scan_found [of item sdt] scan by simp
  have total: "sum_list (map Count sdt') =
      sum_list (map Count sdt) + (if item \<in> set (map Value sdt) then 1 else 0)"
    using collate_scan_sum [OF assms, of item] scan by simp
  have dist': "distinct (map Value sdt')"
    using assms vals by simp
  have one: "length (filter (\<lambda>t. Value t = item) sdt') = (if item \<in> set (map Value sdt) then 1 else 0)"
    using distinct_filter_eq_length [OF dist', of item] vals by simp
  show ?thesis
  proof (cases foundIt)
    case True
    then have "collateSubmittedData sdt item = sdt'"
      by (simp add: collateSubmittedData_def scan)
    then show ?thesis
      using True found dist' total one by simp
  next
    case False
    then have res: "collateSubmittedData sdt item = sdt' @ [\<lparr>Value = item, Count = 1\<rparr>]"
      by (simp add: collateSubmittedData_def scan)
    have "item \<notin> set (map Value sdt')"
      using False found vals by simp
    then show ?thesis
      using False found dist' total one by (simp add: res)
  qed
qed

theorem collateSubmittedData_keeps_distinct_witness:
  "distinct (map Value [\<lparr>Value = None, Count = 2\<rparr>])
   \<and> distinct (map Value (collateSubmittedData [\<lparr>Value = None, Count = 2\<rparr>] (Some fmempty)))
   \<and> sum_list (map Count (collateSubmittedData [\<lparr>Value = None, Count = 2\<rparr>] (Some fmempty))) = 3
   \<and> collateSubmittedData [\<lparr>Value = None, Count = 2\<rparr>] None = [\<lparr>Value = None, Count = 3\<rparr>]"
  using collateSubmittedData_keeps_distinct [of "[\<lparr>Value = None, Count = 2\<rparr>]" "Some fmempty"]
  by (simp add: collateSubmittedData_def)

section \<open>Eligibility\<close>

text \<open>
  C2. The claim: an empty rule for a prerequisite task \<^verbatim>\<open>T\<close> requires
  \<^verbatim>\<open>SubmittedData.T\<close> to be missing. The program requires \<^verbatim>\<open>SubmittedData.<task.Name>\<close>
  to be missing instead, for the task being assigned. Here the task \<^verbatim>\<open>vote\<close> carries the
  empty rule for \<^verbatim>\<open>categorize\<close>: the condition composed is on \<^verbatim>\<open>vote\<close>, the asset that
  has been categorized is eligible and is the one chosen, whatever is drawn, and the asset that has
  not been categorized is not among the matches.
\<close>

theorem empty_rule_names_assigned_task:
  "criteria_musts c2_task (acSubmittedData (tAssignmentCriteria c2_task)) = Inr [Missing ''vote'']
   \<and> \<not> entry_is_nil (aSubmittedData c2_categorized) ''categorize''
   \<and> entry_is_nil (aSubmittedData c2_uncategorized) ''categorize''
   \<and> search_assets c2_server [Missing ''vote'', MatchProject ''p''] [] 2
       = Inr (1, [(''a1'', c2_categorized)])
   \<and> FindAssignmentAsset c2_server c2_task (new_user ''u1'') 0 = Inr c2_categorized
   \<and> FindAssignmentAsset c2_server c2_task (new_user ''u1'') 1 = Inr c2_categorized"
  by code_simp

text \<open>
  C3. The claim: an asset of any earlier assignment of the worker for the task is never
  returned. The search for the earlier assignments asks for at most
  \<^verbatim>\<open>user.Counts["Assignments"]\<close> hits, a counter that only finished assignments raise.
  Here the worker has skipped asset \<^verbatim>\<open>a1\<close> and finished nothing: the search returns no
  hit, nothing is excluded, and \<^verbatim>\<open>a1\<close> is chosen again.
\<close>

theorem skipped_asset_assigned_again:
  "matching_assignments [TermTask ''p-t'', TermUser ''u1'', TermProject ''p'']
       (es_assignments c3_server) = [(''pHIVEp-tHIVEa1HIVEu1'', c3_skipped)]
   \<and> aId (asAsset c3_skipped) = ''a1''
   \<and> search_assignments c3_server [TermTask ''p-t'', TermUser ''u1'', TermProject ''p'']
       (Some (counts_get (uCounts (new_user ''u1'')) ''Assignments'')) = Inr (1, [])
   \<and> FindAssignmentAsset c3_server c3_task (new_user ''u1'') 0 = Inr c3_asset
   \<and> aId c3_asset = ''a1''
   \<and> asState c3_skipped = ''skipped''
   \<and> map_sum id asId (fst (CreateAssignment c3_server ''p-t'' ''u1'' 0))
       = Inr ''pHIVEp-tHIVEa1HIVEu1''
   \<and> map (\<lambda>hit. (fst hit, asState (snd hit)))
        (es_assignments (snd (CreateAssignment c3_server ''p-t'' ''u1'' 0)))
       = [(''pHIVEp-tHIVEa1HIVEu1'', ''unfinished'')]"
  by code_simp

section \<open>Allocation\<close>

text \<open>
  C7. The claim: an allocation for a task that is not available fails, creates no
  assignment and changes no counts. \<^verbatim>\<open>CreateAssignment\<close> does check the task's state;
  \<^verbatim>\<open>CreateAssetAssignment\<close>, the allocation of a given asset, never looks the task up.
  Here the task is \<^verbatim>\<open>waiting\<close>: the allocation without an asset fails and leaves the
  store as it was, the allocation of asset \<^verbatim>\<open>a1\<close> succeeds, stores an assignment and
  raises the counts of the asset.
\<close>

theorem asset_allocation_ignores_task_state:
  "FindTask c7_server ''p-t'' = Inr c7_task
   \<and> tCurrentState c7_task = ''waiting''
   \<and> CreateAssignment c7_server ''p-t'' ''u1'' 0 = (Inl (Err ''Invalid task''), c7_server)
   \<and> map_sum id (\<lambda>a. (asId a, asTask a, asState a))
        (fst (CreateAssetAssignment c7_server ''p-t'' ''u1'' ''a1''))
       = Inr (''pHIVEp-tHIVEa1HIVEu1'', ''p-t'', ''unfinished'')
   \<and> es_assignments c7_server = []
   \<and> map fst (es_assignments (snd (CreateAssetAssignment c7_server ''p-t'' ''u1'' ''a1'')))
       = [''pHIVEp-tHIVEa1HIVEu1'']
   \<and> map (\<lambda>hit. (counts_get (aCounts (snd hit)) ''Assignments'',
                   counts_get (aCounts (snd hit)) ''unfinished'')) (es_assets c7_server)
       = [(0, 0)]
   \<and> map (\<lambda>hit. (counts_get (aCounts (snd hit)) ''Assignments'',
                   counts_get (aCounts (snd hit)) ''unfinished''))
        (es_assets (snd (CreateAssetAssignment c7_server ''p-t'' ''u1'' ''a1'')))
       = [(1, 1)]"
  by code_simp

section \<open>The verified flag\<close>

lemma task_field_Name: "task_field ''Name'' = tName"
  by (rule ext) (simp add: task_field_def)

lemma FindTasks_page:
  "\<not> es_fails s OpSearchTasks \<Longrightarrow>
   FindTasks s task_page = (take 10 (sort_key tName (project_tasks s)), None)"
  by (simp add: FindTasks_def task_page_def project_tasks_def task_field_Name)





section \<open>Favorites\<close>

lemma es_fails_none: "es_faults s = [] \<Longrightarrow> \<not> es_fails s op"
  by (simp add: es_fails_def)

lemma fill_task_counts_Some: "\<exists>g. fill_task_counts tasks (Some f) = Inr (Some g)"
  by (induction tasks arbitrary: f) (auto simp: lookup_map_def split: option.splits)

lemma FindUser_found:
  assumes "es_faults s = []" "userId \<noteq> []" "map_of (es_users s) userId = Some user"
    "uCounts user = Some c"
  shows "\<exists>g. FindUser s userId = (Inr (Some (user\<lparr>uCounts := Some g\<rparr>)), s)"
proof -
  obtain g where
    g: "fill_task_counts (take 10 (sort_key tName (project_tasks s))) (Some c) = Inr (Some g)"
    using fill_task_counts_Some by blast
  have "FindUser s userId = (Inr (Some (user\<lparr>uCounts := Some g\<rparr>)), s)"
    using assms g by (simp add: FindUser_def GetSource_def es_fails_none FindTasks_page)
  then show ?thesis by blast
qed

text \<open>One call of the handler, for a user and an asset stored under their own ids.\<close>

lemma favorites_step:
  assumes faults: "es_faults s = []" and uid: "userId \<noteq> []" and aid: "assetId \<noteq> []"
    and asset: "map_of (es_assets s) assetId = Some asset" "aId asset = assetId"
    and user: "map_of (es_users s) userId = Some user" "uId user = userId" "uCounts user = Some c"
  shows "\<exists>s' asset' user' c'.
      FavoriteHandler s project assetId userId
        = (Inr \<lparr>AssetId = assetId,
                Action = (if assetId |\<in>| favorite_ids user then ''unfavorited'' else ''favorited'')\<rparr>, s')
      \<and> es_faults s' = []
      \<and> map_of (es_assets s') assetId = Some asset' \<and> aId asset' = assetId
      \<and> map_of (es_users s') userId = Some user' \<and> uId user' = userId \<and> uCounts user' = Some c'
      \<and> favorite_ids user'
          = (if assetId |\<in>| favorite_ids user then favorite_ids user |-| {|assetId|}
             else finsert assetId (favorite_ids user))
      \<and> counts_get (uCounts user') ''Favorites'' = len_map (uFavorites user')"
proof -
  let ?s = "s\<lparr>ActiveProjectId := project\<rparr>"
  have f': "es_faults ?s = []" using faults by simp
  obtain g where fu: "FindUser ?s userId = (Inr (Some (user\<lparr>uCounts := Some g\<rparr>)), ?s)"
    using FindUser_found [OF f' uid, of user c] user by auto
  have fa: "FindAsset ?s assetId = Inr asset"
    using asset f' by (simp add: FindAsset_def GetSource_def es_fails_none)
  have mem: "(fmlookup (if len_map (uFavorites user) \<le> 0 then fmempty
                    else (case uFavorites user of None \<Rightarrow> fmempty | Some f \<Rightarrow> f)) assetId \<noteq> None)
             = (assetId |\<in>| favorite_ids user)"
    by (auto simp: favorite_ids_def len_map_def fmlookup_dom_iff split: option.splits)
  show ?thesis
    using fa fu f' uid aid asset user mem
    apply (simp add: FavoriteHandler_def Let_def index_asset_def index_user_def Index_doc_def
        es_fails_none update_conv' json_asset_def favorite_ids_def counts_get_def count_of_def
        len_map_def split: option.splits)
    apply (auto simp: fmlookup_dom_iff split: option.splits if_splits)
    done
qed

text \<open>
  C9. For a worker and an asset that are stored under their ids (the worker's counts
  exist, the store answers every request), two calls of the favorite toggle succeed; the
  actions reported are \<^verbatim>\<open>favorited\<close> then \<^verbatim>\<open>unfavorited\<close> when the asset was not a favorite
  and the reverse when it was; after the second call the worker's favorites are the
  assets they were at the start; and after each call the worker's
  \<^verbatim>\<open>Counts["Favorites"]\<close> is the number of entries of the favorites.
\<close>

theorem FavoriteHandler_toggles:
  assumes faults: "es_faults s = []" and uid: "userId \<noteq> []" and aid: "assetId \<noteq> []"
    and asset: "map_of (es_assets s) assetId = Some asset" "aId asset = assetId"
    and user: "map_of (es_users s) userId = Some user" "uId user = userId" "uCounts user = Some c"
  shows "\<exists>s1 s2 u1 u2.
      FavoriteHandler s project assetId userId
        = (Inr \<lparr>AssetId = assetId,
                Action = (if assetId |\<in>| favorite_ids user then ''unfavorited'' else ''favorited'')\<rparr>, s1)
      \<and> FavoriteHandler s1 project assetId userId
        = (Inr \<lparr>AssetId = assetId,
                Action = (if assetId |\<in>| favorite_ids user then ''favorited'' else ''unfavorited'')\<rparr>, s2)
      \<and> map_of (es_users s1) userId = Some u1
      \<and> map_of (es_users s2) userId = Some u2
      \<and> (assetId |\<in>| favorite_ids u1) = (assetId |\<notin>| favorite_ids user)
      \<and> favorite_ids u2 = favorite_ids user
      \<and> counts_get (uCounts u1) ''Favorites'' = len_map (uFavorites u1)
      \<and> counts_get (uCounts u2) ''Favorites'' = len_map (uFavorites u2)"
proof -
  from favorites_step [OF faults uid aid asset user, of project]
  obtain s1 asset1 u1 c1 where
    r1: "FavoriteHandler s project assetId userId
        = (Inr \<lparr>AssetId = assetId,
                Action = (if assetId |\<in>| favorite_ids user then ''unfavorited'' else ''favorited'')\<rparr>, s1)"
    and f1: "es_faults s1 = []"
    and a1: "map_of (es_assets s1) assetId = Some asset1" "aId asset1 = assetId"
    and u1: "map_of (es_users s1) userId = Some u1" "uId u1 = userId" "uCounts u1 = Some c1"
    and ids1: "favorite_ids u1
          = (if assetId |\<in>| favorite_ids user then favorite_ids user |-| {|assetId|}
             else finsert assetId (favorite_ids user))"
    and n1: "counts_get (uCounts u1) ''Favorites'' = len_map (uFavorites u1)"
    by blast
  from favorites_step [OF f1 uid aid a1 u1, of project]
  obtain s2 asset2 u2 c2 where
    r2: "FavoriteHandler s1 project assetId userId
        = (Inr \<lparr>AssetId = assetId,
                Action = (if assetId |\<in>| favorite_ids u1 then ''unfavorited'' else ''favorited'')\<rparr>, s2)"
    and u2: "map_of (es_users s2) userId = Some u2"
    and ids2: "favorite_ids u2
          = (if assetId |\<in>| favorite_ids u1 then favorite_ids u1 |-| {|assetId|}
             else finsert assetId (favorite_ids u1))"
    and n2: "counts_get (uCounts u2) ''Favorites'' = len_map (uFavorites u2)"
    by blast
  have flip: "(assetId |\<in>| favorite_ids u1) = (assetId |\<notin>| favorite_ids user)"
    using ids1 by auto
  have restored: "favorite_ids u2 = favorite_ids user"
    using ids1 ids2 by auto
  have r2': "FavoriteHandler s1 project assetId userId
        = (Inr \<lparr>AssetId = assetId,
                Action = (if assetId |\<in>| favorite_ids user then ''favorited'' else ''unfavorited'')\<rparr>, s2)"
    using r2 flip by auto
  show ?thesis
    using r1 r2' u1(1) u2 flip restored n1 n2 by blast
qed

theorem FavoriteHandler_toggles_witness:
  "es_faults c7_server = []
   \<and> map_of (es_assets c7_server) ''a1'' = Some c7_asset \<and> aId c7_asset = ''a1''
   \<and> map_of (es_users c7_server) ''u1'' = Some (new_user ''u1'') \<and> uId (new_user ''u1'') = ''u1''
   \<and> uCounts (new_user ''u1'') = Some new_user_counts
   \<and> favorite_ids (new_user ''u1'') = {||}
   \<and> fst (FavoriteHandler c7_server ''p'' ''a1'' ''u1'')
       = Inr \<lparr>AssetId = ''a1'', Action = ''favorited''\<rparr>
   \<and> fst (FavoriteHandler (snd (FavoriteHandler c7_server ''p'' ''a1'' ''u1'')) ''p'' ''a1'' ''u1'')
       = Inr \<lparr>AssetId = ''a1'', Action = ''unfavorited''\<rparr>"
proof -
  have h: "es_faults c7_server = []" "''u1'' \<noteq> []" "''a1'' \<noteq> []"
    "map_of (es_assets c7_server) ''a1'' = Some c7_asset" "aId c7_asset = ''a1''"
    "map_of (es_users c7_server) ''u1'' = Some (new_user ''u1'')" "uId (new_user ''u1'') = ''u1''"
    "uCounts (new_user ''u1'') = Some new_user_counts"
    by code_simp+
  have none: "favorite_ids (new_user ''u1'') = {||}"
    by code_simp
  from FavoriteHandler_toggles [OF h, of "''p''"]
  show ?thesis using h none by auto
qed

section \<open>The counts of an asset\<close>





















lemma count_of_add_count [simp]:
  "count_of (add_count f k d) k' = (if k' = k then count_of f k + d else count_of f k')"
  by (simp add: add_count_def count_of_def)

lemma counts_get_Some [simp]: "counts_get (Some f) k = count_of f k"
  by (simp add: counts_get_def)





















section \<open>Allocating twice\<close>


lemma Join4_nonempty: "Join [a, b, c, d] ''HIVE'' \<noteq> []"
  by simp








section \<open>The consensus sweep\<close>


























































end
